theory Spec2Isabelle
  imports Main "HOL-Library.Word" "HOL-Library.Sublist"
begin

section \<open>Go values used by \<^verbatim>\<open>main.go\<close>\<close>

text \<open>
  \<^verbatim>\<open>int64\<close> is a 64-bit two's complement word, read with \<open>sint\<close>. A Go
  \<^verbatim>\<open>error\<close> is represented by the text its \<^verbatim>\<open>Error()\<close> method returns, and a
  \<^verbatim>\<open>(T, error)\<close> result by a sum with the error on the left.
\<close>

type_synonym int64 = "64 word"

type_synonym error = string

subsection \<open>Package \<^verbatim>\<open>time\<close>\<close>

text \<open>
  \<^verbatim>\<open>time.Duration\<close> is an \<^verbatim>\<open>int64\<close> count of nanoseconds; the constants are those of
  the package. A \<^verbatim>\<open>time.Time\<close> is an instant, kept here as nanoseconds since the Unix
  epoch; \<^verbatim>\<open>t.Add(d)\<close> moves it by \<open>d\<close> nanoseconds.
\<close>

type_synonym Duration = "64 word"

type_synonym Time = int

definition time_Nanosecond :: Duration where
  "time_Nanosecond = 1"

definition time_Microsecond :: Duration where
  "time_Microsecond = 1000 * time_Nanosecond"

definition time_Millisecond :: Duration where
  "time_Millisecond = 1000 * time_Microsecond"

definition time_Second :: Duration where
  "time_Second = 1000 * time_Millisecond"

definition time_Minute :: Duration where
  "time_Minute = 60 * time_Second"

definition Add :: "Time \<Rightarrow> Duration \<Rightarrow> Time" where
  "Add t d = t + sint d"

text \<open>
  The calendar fields \<^verbatim>\<open>t.Date()\<close> and \<^verbatim>\<open>t.Clock()\<close> give for a time in its location.
  Go computes them from the whole seconds of the instant, so the zone database and the
  calendar are one function from Unix seconds to these fields, supplied by the platform
  below.
\<close>

record civil =
  year :: int
  month :: int
  day :: int
  hour :: int
  minute :: int
  second :: int

definition unix_seconds :: "Time \<Rightarrow> int" where
  "unix_seconds t = t div 1000000000"

subsection \<open>Decimal output\<close>

definition digit :: "nat \<Rightarrow> char" where
  "digit d = ''0123456789'' ! (d mod 10)"

fun digits10 :: "nat \<Rightarrow> string" where
  "digits10 n = (if n < 10 then [digit n] else digits10 (n div 10) @ [digit (n mod 10)])"

declare digits10.simps [simp del]

text \<open>The verb \<^verbatim>\<open>%d\<close> of \<^verbatim>\<open>fmt.Sprintf\<close> on a signed integer.\<close>

definition fmt_d :: "int \<Rightarrow> string" where
  "fmt_d i = (if i < 0 then CHR ''-'' # digits10 (nat (- i)) else digits10 (nat i))"

text \<open>
  \<^verbatim>\<open>appendInt\<close> of \<^verbatim>\<open>time/format.go\<close>: the sign, then the decimal digits padded with
  zeros on the left up to \<open>width\<close>; a number with more digits is not cut.
\<close>

definition appendInt :: "int \<Rightarrow> nat \<Rightarrow> string" where
  "appendInt x width =
     (let ds = digits10 (nat \<bar>x\<bar>)
      in (if x < 0 then ''-'' else '''') @ replicate (width - length ds) CHR ''0'' @ ds)"

text \<open>
  \<^verbatim>\<open>Format("2006-01-02-15-04-05")\<close>: the layout holds the four-digit year, then the
  zero-padded month, day, hour, minute and second, each after a literal \<^verbatim>\<open>-\<close>. It has no
  fractional-second or zone element.
\<close>

definition Format_layout :: "civil \<Rightarrow> string" where
  "Format_layout c =
     appendInt (year c) 4 @ ''-'' @ appendInt (month c) 2 @ ''-'' @ appendInt (day c) 2 @ ''-'' @
     appendInt (hour c) 2 @ ''-'' @ appendInt (minute c) 2 @ ''-'' @ appendInt (second c) 2"

section \<open>The types of \<^verbatim>\<open>main.go\<close>\<close>

record GeneratePresignedURLBody =
  ContentLength :: int64

record GeneratePresignedURLResponse =
  Method :: string
  PreAssignedURL :: string
  ExpirationTime :: Time
  FileName :: string
  Host :: string
  Details :: "string list"
  ObjectUrl :: string

record GeneratePresignedURLParam =
  param_FileName :: string
  param_Timout :: Duration
  param_ContentLength :: int64
  param_Bucket :: string
  param_ContentType :: string

text \<open>\<^verbatim>\<open>s3.PutObjectInput\<close>, with the four fields the program sets.\<close>

record PutObjectInput =
  s3_Bucket :: string
  s3_Key :: string
  s3_ContentType :: string
  s3_ContentLength :: int64

text \<open>
  The values stored in the \<^verbatim>\<open>map[string]interface{}\<close> envelopes: a boolean, a string or
  the response struct.
\<close>

datatype jvalue = JBool bool | JString string | JData GeneratePresignedURLResponse

type_synonym envelope = "string \<rightharpoonup> jvalue"

section \<open>The platform: libraries, process environment, clock and provider\<close>

text \<open>
  Everything the program calls outside \<^verbatim>\<open>main.go\<close> is a parameter:
  \<^item> \<open>Decode\<close>: \<^verbatim>\<open>json.NewDecoder(r.Body).Decode(&body)\<close>, from the bytes of the body to
    the decoded struct or the decoder's error;
  \<^item> \<open>Getenv\<close>: \<^verbatim>\<open>os.Getenv\<close>;
  \<^item> \<open>Clock\<close>: the successive readings of \<^verbatim>\<open>time.Now()\<close>, numbered from 0;
  \<^item> \<open>Local\<close>: the calendar fields of a Unix second in the process's time zone;
  \<^item> \<open>NewSession\<close>: \<^verbatim>\<open>session.NewSession\<close> for a region;
  \<^item> \<open>Presign\<close>: \<^verbatim>\<open>svc.PutObjectRequest(input)\<close> followed by \<^verbatim>\<open>req.Presign(ttl)\<close>.
  The type \<open>'s\<close> is the provider's session.
\<close>

record 's platform =
  Decode :: "string \<Rightarrow> error + GeneratePresignedURLBody"
  Getenv :: "string \<Rightarrow> string"
  Clock :: "nat \<Rightarrow> Time"
  Local :: "int \<Rightarrow> civil"
  NewSession :: "string \<Rightarrow> error + 's"
  Presign :: "'s \<Rightarrow> PutObjectInput \<Rightarrow> Duration \<Rightarrow> error + string"

text \<open>
  What a run changes outside the response: the number of clock readings taken and the
  calls made to the provider's SDK, in order.
\<close>

datatype sdk_call = CallNewSession string | CallPresign PutObjectInput Duration

record proc =
  Ticks :: nat
  Calls :: "sdk_call list"

definition time_Now :: "'s platform \<Rightarrow> proc \<Rightarrow> Time \<times> proc" where
  "time_Now P s = (Clock P (Ticks s), s\<lparr>Ticks := Suc (Ticks s)\<rparr>)"

definition Format :: "'s platform \<Rightarrow> Time \<Rightarrow> string" where
  "Format P t = Format_layout (Local P (unix_seconds t))"

section \<open>The response writer and the envelopes\<close>

record Request =
  Body :: string

text \<open>
  The \<^verbatim>\<open>http.ResponseWriter\<close> as the client sees it: the headers, the status code
  (\<open>None\<close> before \<^verbatim>\<open>WriteHeader\<close>) and the values encoded to the body, in order.
\<close>

record ResponseWriter =
  Header :: "string \<rightharpoonup> string"
  StatusCode :: "nat option"
  Written :: "envelope list"

definition NewWriter :: ResponseWriter where
  "NewWriter = \<lparr>Header = Map.empty, StatusCode = None, Written = []\<rparr>"

definition StatusOK :: nat where
  "StatusOK = 200"

definition StatusBadRequest :: nat where
  "StatusBadRequest = 400"

definition StatusInternalServerError :: nat where
  "StatusInternalServerError = 500"

definition SendResponse :: "ResponseWriter \<Rightarrow> envelope \<Rightarrow> nat \<Rightarrow> ResponseWriter" where
  "SendResponse w response status =
     w\<lparr>Header := (Header w)(''Content-Type'' \<mapsto> ''application/json''),
       StatusCode := Some status,
       Written := Written w @ [response]\<rparr>"

text \<open>\<^verbatim>\<open>Error\<close>: the \<^verbatim>\<open>err\<close> argument is \<open>None\<close> for Go's \<^verbatim>\<open>nil\<close>.\<close>

definition Error :: "string \<Rightarrow> error option \<Rightarrow> envelope" where
  "Error message err =
     (let res = [''success'' \<mapsto> JBool False, ''message'' \<mapsto> JString message]
      in case err of
           Some e \<Rightarrow> res(''error'' \<mapsto> JString e)
         | None \<Rightarrow> res)"

definition Success :: "string \<Rightarrow> GeneratePresignedURLResponse \<Rightarrow> envelope" where
  "Success message data =
     [''success'' \<mapsto> JBool True, ''message'' \<mapsto> JString message, ''data'' \<mapsto> JData data]"

section \<open>The signer\<close>

definition GeneratePresignedURL ::
  "'s platform \<Rightarrow> GeneratePresignedURLParam \<Rightarrow> proc \<Rightarrow>
     (error + GeneratePresignedURLResponse) \<times> proc" where
  "GeneratePresignedURL P param s =
     (let region = Getenv P ''AWS_REGION'';
          s1 = s\<lparr>Calls := Calls s @ [CallNewSession region]\<rparr>
      in case NewSession P region of
           Inl err \<Rightarrow> (Inl ''failed to create AWS session'', s1)
         | Inr sess \<Rightarrow>
             (let input = \<lparr>s3_Bucket = param_Bucket param,
                           s3_Key = param_FileName param,
                           s3_ContentType = param_ContentType param,
                           s3_ContentLength = param_ContentLength param\<rparr>;
                  s2 = s1\<lparr>Calls := Calls s1 @ [CallPresign input (param_Timout param)]\<rparr>
              in case Presign P sess input (param_Timout param) of
                   Inl err \<Rightarrow> (Inl ''failed to sign request'', s2)
                 | Inr urlStr \<Rightarrow>
                     (let (now, s3) = time_Now P s2;
                          host = param_Bucket param @ ''.s3.amazonaws.com''
                      in (Inr \<lparr>Method = ''PUT'',
                               PreAssignedURL = urlStr,
                               ExpirationTime = Add now (param_Timout param),
                               FileName = param_FileName param,
                               Host = host,
                               Details =
                                 [''Use the pre-signed URL to upload the file'',
                                  ''The URL will expire after '' @
                                    fmt_d (sint (param_Timout param)) @ '' minutes'',
                                  ''The maximum upload size is '' @
                                    fmt_d (sint (param_ContentLength param)) @ '' bytes''],
                               ObjectUrl = ''https://'' @ host @ ''/'' @ param_FileName param\<rparr>,
                          s3))))"

section \<open>The handler\<close>

text \<open>
  The handler writes its answer with one \<^verbatim>\<open>SendResponse\<close> on each of its four paths.
  \<^verbatim>\<open>r.Body.Close()\<close> has no effect on the answer or on the process state and is left out.
\<close>

definition MAX_UPLOAD_SIZE :: int64 where
  "MAX_UPLOAD_SIZE = 1 * 1024 * 1024"

definition GetUploadURLHandler ::
  "'s platform \<Rightarrow> ResponseWriter \<Rightarrow> Request \<Rightarrow> proc \<Rightarrow> ResponseWriter \<times> proc" where
  "GetUploadURLHandler P w r s =
     (case Decode P (Body r) of
        Inl err \<Rightarrow>
          (SendResponse w (Error ''invalid request body'' (Some err)) StatusBadRequest, s)
      | Inr body \<Rightarrow>
          if sint (ContentLength body) \<le> 0 \<or> sint (ContentLength body) > sint MAX_UPLOAD_SIZE
          then (SendResponse w (Error ''invalid content length'' None) StatusBadRequest, s)
          else
            (let (now, s1) = time_Now P s;
                 fileName = Format P now @ ''.png'';
                 uploadTimeout = 10 * time_Minute;
                 bucketName = Getenv P ''AWS_BUCKET'';
                 (res, s2) = GeneratePresignedURL P
                     \<lparr>param_FileName = fileName,
                      param_Timout = uploadTimeout,
                      param_ContentLength = ContentLength body,
                      param_Bucket = bucketName,
                      param_ContentType = ''image/png''\<rparr> s1
             in case res of
                  Inl err \<Rightarrow>
                    (SendResponse w (Error ''failed to create AWS session'' (Some err))
                       StatusInternalServerError, s2)
                | Inr presigned \<Rightarrow>
                    (SendResponse w
                       (Success ''pre-signed URL generated''
                          \<lparr>Method = Method presigned,
                           PreAssignedURL = PreAssignedURL presigned,
                           ExpirationTime = ExpirationTime presigned,
                           FileName = FileName presigned,
                           Host = Host presigned,
                           Details = Details presigned,
                           ObjectUrl = ObjectUrl presigned\<rparr>)
                       StatusOK, s2)))"

section \<open>Names for what the handler passes on and sends\<close>

text \<open>
  The file name the handler builds when it starts in state \<open>s\<close>: the layout of the
  clock reading it takes there, with the extension.
\<close>

definition file_name_at :: "'s platform \<Rightarrow> proc \<Rightarrow> string" where
  "file_name_at P s = Format P (Clock P (Ticks s)) @ ''.png''"

text \<open>
  The \<^verbatim>\<open>GeneratePresignedURLParam\<close> literal the handler passes to the signer for a
  decoded body, and the signer call it makes with it (after its own clock reading).
\<close>

definition upload_param :: "'s platform \<Rightarrow> proc \<Rightarrow> GeneratePresignedURLBody \<Rightarrow>
    GeneratePresignedURLParam" where
  "upload_param P s body =
     \<lparr>param_FileName = file_name_at P s,
      param_Timout = 10 * time_Minute,
      param_ContentLength = ContentLength body,
      param_Bucket = Getenv P ''AWS_BUCKET'',
      param_ContentType = ''image/png''\<rparr>"

definition signer_call :: "'s platform \<Rightarrow> proc \<Rightarrow> GeneratePresignedURLBody \<Rightarrow>
    (error + GeneratePresignedURLResponse) \<times> proc" where
  "signer_call P s body = GeneratePresignedURL P (upload_param P s body) (snd (time_Now P s))"

text \<open>
  \<open>answers w w' status env\<close>: from the writer \<open>w\<close> the handler has set the status and
  encoded exactly one value, \<open>env\<close>.
\<close>

definition answers :: "ResponseWriter \<Rightarrow> ResponseWriter \<Rightarrow> nat \<Rightarrow> envelope \<Rightarrow> bool" where
  "answers w w' status env \<longleftrightarrow>
     StatusCode w' = Some status \<and> Written w' = Written w @ [env] \<and>
     Header w' = (Header w)(''Content-Type'' \<mapsto> ''application/json'')"

text \<open>The descriptor carried under \<^verbatim>\<open>data\<close> by the last value written, if any.\<close>

definition sent_data :: "ResponseWriter \<Rightarrow> GeneratePresignedURLResponse option" where
  "sent_data w =
     (case rev (Written w) of
        [] \<Rightarrow> None
      | env # _ \<Rightarrow> (case env ''data'' of Some (JData d) \<Rightarrow> Some d | _ \<Rightarrow> None))"

text \<open>The \<^verbatim>\<open>s3.PutObjectInput\<close> the signer builds from its parameter.\<close>

definition put_input :: "GeneratePresignedURLParam \<Rightarrow> PutObjectInput" where
  "put_input param =
     \<lparr>s3_Bucket = param_Bucket param, s3_Key = param_FileName param,
      s3_ContentType = param_ContentType param, s3_ContentLength = param_ContentLength param\<rparr>"

text \<open>Go's \<^verbatim>\<open>err == nil\<close> on a result.\<close>

definition succeeded :: "error + 'a \<Rightarrow> bool" where
  "succeeded x = (case x of Inl err \<Rightarrow> False | Inr v \<Rightarrow> True)"

section \<open>The shape of the time stamp\<close>

text \<open>
  \<open>has_layout pat x\<close>: the string \<open>x\<close> has a decimal digit wherever \<open>pat\<close> has the
  letter \<^verbatim>\<open>d\<close>, and the character of \<open>pat\<close> everywhere else. \<open>calendar_fields\<close> are the
  ranges of \<^verbatim>\<open>Date()\<close> and \<^verbatim>\<open>Clock()\<close> for the years 0 to 9999.
\<close>

definition is_digit :: "char \<Rightarrow> bool" where
  "is_digit c \<longleftrightarrow> c \<in> set ''0123456789''"

definition has_layout :: "string \<Rightarrow> string \<Rightarrow> bool" where
  "has_layout pat x = list_all2 (\<lambda>p c. if p = CHR ''d'' then is_digit c else c = p) pat x"

definition calendar_fields :: "civil \<Rightarrow> bool" where
  "calendar_fields c \<longleftrightarrow>
     0 \<le> year c \<and> year c \<le> 9999 \<and> 1 \<le> month c \<and> month c \<le> 12 \<and>
     1 \<le> day c \<and> day c \<le> 31 \<and> 0 \<le> hour c \<and> hour c \<le> 23 \<and>
     0 \<le> minute c \<and> minute c \<le> 59 \<and> 0 \<le> second c \<and> second c \<le> 59"

section \<open>The JSON decoder\<close>














section \<open>A sample platform\<close>

text \<open>
  A concrete platform to run the handler on: what \<^verbatim>\<open>encoding/json\<close> gives for a few
  bodies (anything else is treated like the body \<^verbatim>\<open>not json\<close>), the environment of a
  deployment, a clock that starts at 2023-11-14 22:13:20.123456789 UTC and advances 40 ms
  per reading, the UTC calendar of the seconds of that minute, and a provider that accepts
  every region and signs every request. \<open>sample_unsigned\<close> is the same platform
  without credentials: signing fails.
\<close>

definition sample_Decode :: "string \<Rightarrow> error + GeneratePresignedURLBody" where
  \<open>sample_Decode b =
     (if b = ''{"content_length": 5}'' then Inr \<lparr>ContentLength = 5\<rparr>
      else if b = ''{"content_length": 7}'' then Inr \<lparr>ContentLength = 7\<rparr>
      else if b = ''{"content_length": 0}'' then Inr \<lparr>ContentLength = 0\<rparr>
      else if b = ''{"content_length": 1048577}'' then Inr \<lparr>ContentLength = 1048577\<rparr>
      else Inl ''invalid character 'o' in literal null (expecting 'u')'')\<close>

definition sample_Getenv :: "string \<Rightarrow> string" where
  "sample_Getenv k =
     (if k = ''AWS_BUCKET'' then ''uploads''
      else if k = ''AWS_REGION'' then ''eu-west-1'' else [])"

definition sample_Clock :: "nat \<Rightarrow> Time" where
  "sample_Clock n = 1700000000123456789 + 40000000 * int n"

definition sample_Local :: "int \<Rightarrow> civil" where
  "sample_Local sec =
     \<lparr>year = 2023, month = 11, day = 14, hour = 22, minute = 13,
      second = 20 + (sec - 1700000000)\<rparr>"

definition sample_Presign :: "string \<Rightarrow> PutObjectInput \<Rightarrow> Duration \<Rightarrow> error + string" where
  "sample_Presign sess input ttl =
     Inr (''https://'' @ s3_Bucket input @ ''.s3.'' @ sess @ ''.amazonaws.com/'' @ s3_Key input @
          ''?X-Amz-Signature=5d1b'')"

definition sample :: "string platform" where
  "sample =
     \<lparr>Decode = sample_Decode, Getenv = sample_Getenv, Clock = sample_Clock,
      Local = sample_Local, NewSession = Inr, Presign = sample_Presign\<rparr>"

definition sample_unsigned :: "string platform" where
  "sample_unsigned =
     sample\<lparr>Presign := \<lambda>sess input ttl. Inl ''NoCredentialProviders: no valid providers in chain''\<rparr>"

definition start :: proc where
  "start = \<lparr>Ticks = 0, Calls = []\<rparr>"



section \<open>The paths of the handler and the results of the signer\<close>

lemma digits10_lt: "n < 10 \<Longrightarrow> digits10 n = [digit n]"
  by (subst digits10.simps) simp

lemma digits10_ge: "10 \<le> n \<Longrightarrow> digits10 n = digits10 (n div 10) @ [digit (n mod 10)]"
  by (subst digits10.simps) simp

lemma response_copy [simp]:
  "\<lparr>Method = Method d, PreAssignedURL = PreAssignedURL d, ExpirationTime = ExpirationTime d,
    FileName = FileName d, Host = Host d, Details = Details d, ObjectUrl = ObjectUrl d\<rparr> = d"
  by simp

lemma handler_decode_error:
  "Decode P (Body r) = Inl e \<Longrightarrow>
   GetUploadURLHandler P w r s =
     (SendResponse w (Error ''invalid request body'' (Some e)) StatusBadRequest, s)"
  by (simp add: GetUploadURLHandler_def)

lemma handler_invalid_length:
  "Decode P (Body r) = Inr body \<Longrightarrow>
   sint (ContentLength body) \<le> 0 \<or> 1048576 < sint (ContentLength body) \<Longrightarrow>
   GetUploadURLHandler P w r s =
     (SendResponse w (Error ''invalid content length'' None) StatusBadRequest, s)"
  by (simp add: GetUploadURLHandler_def MAX_UPLOAD_SIZE_def)

lemma handler_valid_length:
  "Decode P (Body r) = Inr body \<Longrightarrow>
   0 < sint (ContentLength body) \<Longrightarrow> sint (ContentLength body) \<le> 1048576 \<Longrightarrow>
   GetUploadURLHandler P w r s =
     (case fst (signer_call P s body) of
        Inl err \<Rightarrow> SendResponse w (Error ''failed to create AWS session'' (Some err))
                     StatusInternalServerError
      | Inr presigned \<Rightarrow> SendResponse w (Success ''pre-signed URL generated'' presigned) StatusOK,
      snd (signer_call P s body))"
  by (simp add: GetUploadURLHandler_def MAX_UPLOAD_SIZE_def signer_call_def upload_param_def
      file_name_at_def time_Now_def Let_def split: prod.splits sum.splits)

lemma signer_session_fails:
  "NewSession P (Getenv P ''AWS_REGION'') = Inl e \<Longrightarrow>
   GeneratePresignedURL P param s =
     (Inl ''failed to create AWS session'',
      s\<lparr>Calls := Calls s @ [CallNewSession (Getenv P ''AWS_REGION'')]\<rparr>)"
  by (simp add: GeneratePresignedURL_def)

lemma signer_presign_fails:
  "NewSession P (Getenv P ''AWS_REGION'') = Inr sess \<Longrightarrow>
   Presign P sess (put_input param) (param_Timout param) = Inl e \<Longrightarrow>
   GeneratePresignedURL P param s =
     (Inl ''failed to sign request'',
      s\<lparr>Calls := Calls s @ [CallNewSession (Getenv P ''AWS_REGION''),
                             CallPresign (put_input param) (param_Timout param)]\<rparr>)"
  by (simp add: GeneratePresignedURL_def put_input_def)

lemma signer_succeeds:
  "NewSession P (Getenv P ''AWS_REGION'') = Inr sess \<Longrightarrow>
   Presign P sess (put_input param) (param_Timout param) = Inr urlStr \<Longrightarrow>
   GeneratePresignedURL P param s =
     (Inr \<lparr>Method = ''PUT'',
           PreAssignedURL = urlStr,
           ExpirationTime = Add (Clock P (Ticks s)) (param_Timout param),
           FileName = param_FileName param,
           Host = param_Bucket param @ ''.s3.amazonaws.com'',
           Details =
             [''Use the pre-signed URL to upload the file'',
              ''The URL will expire after '' @ fmt_d (sint (param_Timout param)) @ '' minutes'',
              ''The maximum upload size is '' @ fmt_d (sint (param_ContentLength param)) @
                '' bytes''],
           ObjectUrl = ''https://'' @ (param_Bucket param @ ''.s3.amazonaws.com'') @ ''/'' @
             param_FileName param\<rparr>,
      s\<lparr>Calls := Calls s @ [CallNewSession (Getenv P ''AWS_REGION''),
                             CallPresign (put_input param) (param_Timout param)],
        Ticks := Suc (Ticks s)\<rparr>)"
  by (simp add: GeneratePresignedURL_def put_input_def time_Now_def)

lemma signer_error_message:
  "fst (GeneratePresignedURL P param s) = Inl e \<Longrightarrow>
   e = ''failed to create AWS session'' \<or> e = ''failed to sign request''"
  by (auto simp: GeneratePresignedURL_def Let_def time_Now_def split: sum.splits)

lemma signer_logs_a_call:
  "Calls (snd (GeneratePresignedURL P param s)) \<noteq> Calls s"
  by (auto simp: GeneratePresignedURL_def Let_def time_Now_def split: sum.splits)

lemma answers_SendResponse: "answers w (SendResponse w env status) status env"
  by (simp add: answers_def SendResponse_def)

lemma signer_call_result:
  assumes "fst (signer_call P s body) = Inr d"
  shows "Method d = ''PUT''"
    and "FileName d = file_name_at P s"
    and "Host d = Getenv P ''AWS_BUCKET'' @ ''.s3.amazonaws.com''"
    and "ObjectUrl d = ''https://'' @ Host d @ ''/'' @ FileName d"
    and "ExpirationTime d = Add (Clock P (Suc (Ticks s))) (10 * time_Minute)"
    and "Details d =
           [''Use the pre-signed URL to upload the file'',
            ''The URL will expire after '' @ fmt_d (sint (10 * time_Minute)) @ '' minutes'',
            ''The maximum upload size is '' @ fmt_d (sint (ContentLength body)) @ '' bytes'']"
  using assms
  by (auto simp: signer_call_def GeneratePresignedURL_def upload_param_def time_Now_def Let_def
      split: sum.splits)

lemma succeeded_Inr: "succeeded x \<Longrightarrow> \<exists>v. x = Inr v"
  by (cases x) (simp_all add: succeeded_def)

lemma sent_data_Success [simp]:
  "sent_data (SendResponse w (Success message d) status) = Some d"
  by (simp add: sent_data_def SendResponse_def Success_def)

lemma handler_ok_cases:
  assumes "StatusCode (fst (GetUploadURLHandler P w r s)) = Some StatusOK"
  obtains body d where "Decode P (Body r) = Inr body"
    and "0 < sint (ContentLength body)" and "sint (ContentLength body) \<le> 1048576"
    and "fst (signer_call P s body) = Inr d"
    and "GetUploadURLHandler P w r s =
           (SendResponse w (Success ''pre-signed URL generated'' d) StatusOK,
            snd (signer_call P s body))"
proof (cases "Decode P (Body r)")
  case (Inl e)
  then have "StatusCode (fst (GetUploadURLHandler P w r s)) = Some StatusBadRequest"
    by (simp add: handler_decode_error SendResponse_def)
  with assms show ?thesis
    by (simp add: StatusOK_def StatusBadRequest_def)
next
  case (Inr body)
  show ?thesis
  proof (cases "sint (ContentLength body) \<le> 0 \<or> 1048576 < sint (ContentLength body)")
    case True
    with Inr have "StatusCode (fst (GetUploadURLHandler P w r s)) = Some StatusBadRequest"
      by (simp add: handler_invalid_length SendResponse_def)
    with assms show ?thesis
      by (simp add: StatusOK_def StatusBadRequest_def)
  next
    case False
    then have range: "0 < sint (ContentLength body)" "sint (ContentLength body) \<le> 1048576"
      by simp_all
    note run = handler_valid_length [OF Inr range, of w s]
    show ?thesis
    proof (cases "fst (signer_call P s body)")
      case (Inl e)
      with run have "StatusCode (fst (GetUploadURLHandler P w r s)) = Some StatusInternalServerError"
        by (simp add: SendResponse_def)
      with assms show ?thesis
        by (simp add: StatusOK_def StatusInternalServerError_def)
    next
      case (Inr d)
      with run have "GetUploadURLHandler P w r s =
           (SendResponse w (Success ''pre-signed URL generated'' d) StatusOK,
            snd (signer_call P s body))"
        by simp
      with \<open>Decode P (Body r) = Inr body\<close> range Inr show ?thesis
        by (rule that)
    qed
  qed
qed



section \<open>Digits and the shape of the time stamp\<close>

lemma is_digit_digit: "is_digit (digit d)"
  unfolding is_digit_def digit_def by (rule nth_mem) simp

lemma digits10_all_digits: "list_all is_digit (digits10 n)"
proof (induction n rule: digits10.induct)
  case (1 n)
  show ?case
  proof (cases "n < 10")
    case True
    then show ?thesis
      by (simp add: digits10_lt is_digit_digit)
  next
    case False
    with 1 show ?thesis
      by (simp add: digits10_ge is_digit_digit)
  qed
qed

lemma digits10_length_le: "n < 10 ^ k \<Longrightarrow> 0 < k \<Longrightarrow> length (digits10 n) \<le> k"
proof (induction k arbitrary: n)
  case 0
  then show ?case by simp
next
  case (Suc k)
  show ?case
  proof (cases "n < 10")
    case True
    then show ?thesis
      by (simp add: digits10_lt)
  next
    case False
    then have "0 < k"
      using Suc.prems(1) by (cases k) simp_all
    moreover have "n div 10 < 10 ^ k"
      using Suc.prems(1) by (simp add: less_mult_imp_div_less mult.commute)
    ultimately have "length (digits10 (n div 10)) \<le> k"
      by (rule Suc.IH [rotated])
    with False show ?thesis
      by (simp add: digits10_ge)
  qed
qed

lemma has_layout_digits:
  "has_layout (replicate w CHR ''d'') x \<longleftrightarrow> length x = w \<and> list_all is_digit x"
  by (auto simp: has_layout_def list_all2_conv_all_nth list_all_length)

lemma has_layout_append:
  "has_layout p x \<Longrightarrow> has_layout q y \<Longrightarrow> has_layout (p @ q) (x @ y)"
  unfolding has_layout_def by (rule list_all2_appendI)

lemma has_layout_dash: "has_layout ''-'' ''-''"
  by (simp add: has_layout_def)

lemma is_digit_zero: "is_digit CHR ''0''"
  by (simp add: is_digit_def)

lemma list_all_replicate: "P x \<Longrightarrow> list_all P (replicate n x)"
  by (induction n) simp_all

lemma appendInt_layout:
  assumes "0 \<le> x" and "x < 10 ^ w" and "0 < w"
  shows "has_layout (replicate w CHR ''d'') (appendInt x w)"
proof -
  have "nat \<bar>x\<bar> < 10 ^ w"
    using assms(1,2) by (simp add: nat_less_iff)
  then have "length (digits10 (nat \<bar>x\<bar>)) \<le> w"
    using assms(3) by (rule digits10_length_le)
  then show ?thesis
    using assms(1) digits10_all_digits [of "nat \<bar>x\<bar>"]
    by (simp add: has_layout_digits appendInt_def Let_def list_all_replicate is_digit_zero)
qed

lemma Format_layout_shape:
  assumes "calendar_fields c"
  shows "has_layout ''dddd-dd-dd-dd-dd-dd'' (Format_layout c)"
proof -
  have y: "has_layout (replicate 4 CHR ''d'') (appendInt (year c) 4)"
    using assms by (intro appendInt_layout) (simp_all add: calendar_fields_def)
  have two: "has_layout (replicate 2 CHR ''d'') (appendInt x 2)" if "0 \<le> x" and "x \<le> 59" for x
    using that by (intro appendInt_layout) simp_all
  have f: "has_layout (replicate 2 CHR ''d'') (appendInt (month c) 2)"
    "has_layout (replicate 2 CHR ''d'') (appendInt (day c) 2)"
    "has_layout (replicate 2 CHR ''d'') (appendInt (hour c) 2)"
    "has_layout (replicate 2 CHR ''d'') (appendInt (minute c) 2)"
    "has_layout (replicate 2 CHR ''d'') (appendInt (second c) 2)"
    using assms by (simp_all add: calendar_fields_def two)
  have pat: "''dddd-dd-dd-dd-dd-dd'' =
      replicate 4 CHR ''d'' @ ''-'' @ replicate 2 CHR ''d'' @ ''-'' @ replicate 2 CHR ''d'' @ ''-'' @
      replicate 2 CHR ''d'' @ ''-'' @ replicate 2 CHR ''d'' @ ''-'' @ replicate 2 CHR ''d''"
    by (simp add: eval_nat_numeral)
  show ?thesis
    unfolding pat Format_layout_def
    by (intro has_layout_append has_layout_dash y f)
qed

section \<open>Runs on the sample platform\<close>

lemmas sample_defs =
  sample_def sample_unsigned_def sample_Decode_def sample_Getenv_def sample_Clock_def
  sample_Local_def sample_Presign_def start_def NewWriter_def

lemmas run_defs =
  GetUploadURLHandler_def GeneratePresignedURL_def SendResponse_def Error_def Success_def
  MAX_UPLOAD_SIZE_def time_Now_def Format_def Format_layout_def appendInt_def unix_seconds_def
  Add_def time_Minute_def time_Second_def time_Millisecond_def time_Microsecond_def
  time_Nanosecond_def StatusOK_def StatusBadRequest_def StatusInternalServerError_def
  signer_call_def upload_param_def file_name_at_def answers_def sent_data_def succeeded_def
  fmt_d_def digits10_lt digits10_ge digit_def Let_def

lemma sample_run:
  \<open>map_option (\<lambda>d. (FileName d, Host d, ObjectUrl d, ExpirationTime d, Details d, PreAssignedURL d))
     (sent_data (fst (GetUploadURLHandler sample NewWriter \<lparr>Body = ''{"content_length": 5}''\<rparr> start)))
   = Some (''2023-11-14-22-13-20.png'', ''uploads.s3.amazonaws.com'',
       ''https://uploads.s3.amazonaws.com/2023-11-14-22-13-20.png'', 1700000600163456789,
       [''Use the pre-signed URL to upload the file'',
        ''The URL will expire after 600000000000 minutes'',
        ''The maximum upload size is 5 bytes''],
       ''https://uploads.s3.eu-west-1.amazonaws.com/2023-11-14-22-13-20.png?X-Amz-Signature=5d1b'')\<close>
  by (simp add: sample_defs run_defs)

lemma sample_status:
  \<open>StatusCode (fst (GetUploadURLHandler sample NewWriter \<lparr>Body = ''{"content_length": 5}''\<rparr> start))
     = Some StatusOK\<close>
  by (simp add: sample_defs run_defs)

lemma sample_status_later:
  \<open>StatusCode (fst (GetUploadURLHandler sample NewWriter \<lparr>Body = ''{"content_length": 7}''\<rparr>
     \<lparr>Ticks = 2, Calls = []\<rparr>)) = Some StatusOK\<close>
  by (simp add: sample_defs run_defs)

lemma sample_status_seven:
  \<open>StatusCode (fst (GetUploadURLHandler sample NewWriter \<lparr>Body = ''{"content_length": 7}''\<rparr> start))
     = Some StatusOK\<close>
  by (simp add: sample_defs run_defs)

section \<open>The claims of the specification\<close>

text \<open>
  Claim C1. A request whose body decodes to a \<^verbatim>\<open>content_length\<close> that is at most 0 or
  above 1048576 is answered with status 400 and an envelope whose \<^verbatim>\<open>success\<close> is false.
  The signer is not invoked: the process state (clock readings taken, SDK calls made) is
  the one before the request, while every invocation of the signer adds to the SDK calls.
\<close>

theorem invalid_content_length_rejected:
  assumes "Decode P (Body r) = Inr body"
    and "sint (ContentLength body) \<le> 0 \<or> 1048576 < sint (ContentLength body)"
  shows "(\<exists>env. answers w (fst (GetUploadURLHandler P w r s)) StatusBadRequest env \<and>
            env ''success'' = Some (JBool False)) \<and>
         StatusBadRequest = 400 \<and>
         snd (GetUploadURLHandler P w r s) = s \<and>
         (\<forall>param. Calls (snd (GeneratePresignedURL P param s)) \<noteq> Calls s)"
proof -
  let ?env = "Error ''invalid content length'' None"
  have run: "GetUploadURLHandler P w r s = (SendResponse w ?env StatusBadRequest, s)"
    using assms by (rule handler_invalid_length)
  have "answers w (fst (GetUploadURLHandler P w r s)) StatusBadRequest ?env"
    by (simp add: run answers_SendResponse)
  moreover have "?env ''success'' = Some (JBool False)"
    by (simp add: Error_def)
  ultimately show ?thesis
    by (auto simp: run StatusBadRequest_def signer_logs_a_call)
qed

theorem invalid_content_length_rejected_witness:
  \<open>Decode sample ''{"content_length": 1048577}'' = Inr \<lparr>ContentLength = 1048577\<rparr> \<and>
   StatusCode (fst (GetUploadURLHandler sample NewWriter \<lparr>Body = ''{"content_length": 1048577}''\<rparr> start))
     = Some 400 \<and>
   snd (GetUploadURLHandler sample NewWriter \<lparr>Body = ''{"content_length": 1048577}''\<rparr> start) = start\<close>
  using invalid_content_length_rejected
    [of sample \<open>\<lparr>Body = ''{"content_length": 1048577}''\<rparr>\<close> \<open>\<lparr>ContentLength = 1048577\<rparr>\<close> NewWriter start]
  by (simp add: sample_defs answers_def StatusBadRequest_def)

text \<open>
  Claim C2. A request whose body decodes to a \<^verbatim>\<open>content_length\<close> in (0, 1048576], and for
  which the signer call succeeds, is answered with status 200 and \<^verbatim>\<open>success\<close> true; the
  descriptor under \<^verbatim>\<open>data\<close> has a \<^verbatim>\<open>file_name\<close> ending in \<^verbatim>\<open>.png\<close> and an
  \<^verbatim>\<open>object_url\<close> equal to \<^verbatim>\<open>https://\<close> + its host + \<^verbatim>\<open>/\<close> + its file name.
\<close>

theorem valid_request_gets_descriptor:
  assumes "Decode P (Body r) = Inr body"
    and "0 < sint (ContentLength body)" and "sint (ContentLength body) \<le> 1048576"
    and "succeeded (fst (signer_call P s body))"
  shows "\<exists>env d. answers w (fst (GetUploadURLHandler P w r s)) StatusOK env \<and> StatusOK = 200 \<and>
           env ''success'' = Some (JBool True) \<and> env ''data'' = Some (JData d) \<and>
           suffix ''.png'' (FileName d) \<and>
           ObjectUrl d = ''https://'' @ Host d @ ''/'' @ FileName d"
proof -
  from assms(4) obtain d where d: "fst (signer_call P s body) = Inr d"
    using succeeded_Inr by blast
  let ?env = "Success ''pre-signed URL generated'' d"
  have "GetUploadURLHandler P w r s = (SendResponse w ?env StatusOK, snd (signer_call P s body))"
    using assms(1-3) d by (simp add: handler_valid_length)
  then have "answers w (fst (GetUploadURLHandler P w r s)) StatusOK ?env"
    by (simp add: answers_SendResponse)
  moreover have "?env ''success'' = Some (JBool True)" and "?env ''data'' = Some (JData d)"
    by (simp_all add: Success_def)
  moreover have "suffix ''.png'' (FileName d)"
    using signer_call_result(2) [OF d] by (simp add: file_name_at_def suffix_def)
  moreover note signer_call_result(4) [OF d]
  ultimately show ?thesis
    unfolding StatusOK_def by blast
qed

theorem valid_request_gets_descriptor_witness:
  \<open>Decode sample ''{"content_length": 5}'' = Inr \<lparr>ContentLength = 5\<rparr> \<and>
   succeeded (fst (signer_call sample start \<lparr>ContentLength = 5\<rparr>)) \<and>
   (\<exists>env d. answers NewWriter
        (fst (GetUploadURLHandler sample NewWriter \<lparr>Body = ''{"content_length": 5}''\<rparr> start))
        200 env \<and>
      env ''success'' = Some (JBool True) \<and> env ''data'' = Some (JData d) \<and>
      suffix ''.png'' (FileName d) \<and> ObjectUrl d = ''https://'' @ Host d @ ''/'' @ FileName d)\<close>
proof -
  have 1: \<open>Decode sample (Body \<lparr>Body = ''{"content_length": 5}''\<rparr>) = Inr \<lparr>ContentLength = 5\<rparr>\<close>
    by (simp add: sample_defs)
  have 2: "succeeded (fst (signer_call sample start \<lparr>ContentLength = 5\<rparr>))"
    by (simp add: sample_defs signer_call_def GeneratePresignedURL_def succeeded_def time_Now_def
        upload_param_def)
  have 3: "0 < sint (ContentLength \<lparr>ContentLength = 5\<rparr>)"
    and 4: "sint (ContentLength \<lparr>ContentLength = 5\<rparr>) \<le> 1048576"
    by simp_all
  show ?thesis
    using 1 2 valid_request_gets_descriptor [OF 1 3 4 2, of NewWriter]
    by (simp add: StatusOK_def)
qed

text \<open>
  Claim C3. A request whose body does not decode is answered with status 400 and an
  envelope whose \<^verbatim>\<open>success\<close> is false and whose \<^verbatim>\<open>error\<close> field is present and holds the
  decoder's error message; nothing else happens.
\<close>

theorem malformed_body_rejected:
  assumes "Decode P (Body r) = Inl e"
  shows "(\<exists>env. answers w (fst (GetUploadURLHandler P w r s)) StatusBadRequest env \<and>
            env ''success'' = Some (JBool False) \<and> env ''error'' = Some (JString e)) \<and>
         StatusBadRequest = 400 \<and>
         snd (GetUploadURLHandler P w r s) = s"
proof -
  let ?env = "Error ''invalid request body'' (Some e)"
  have run: "GetUploadURLHandler P w r s = (SendResponse w ?env StatusBadRequest, s)"
    using assms by (rule handler_decode_error)
  have "answers w (fst (GetUploadURLHandler P w r s)) StatusBadRequest ?env"
    by (simp add: run answers_SendResponse)
  moreover have "?env ''success'' = Some (JBool False)" and "?env ''error'' = Some (JString e)"
    by (simp_all add: Error_def)
  ultimately show ?thesis
    by (auto simp: run StatusBadRequest_def)
qed

theorem malformed_body_rejected_witness:
  "Decode sample ''not json'' = Inl ''invalid character 'o' in literal null (expecting 'u')'' \<and>
   StatusCode (fst (GetUploadURLHandler sample NewWriter \<lparr>Body = ''not json''\<rparr> start)) = Some 400 \<and>
   map (\<lambda>env. (env ''success'', env ''error''))
     (Written (fst (GetUploadURLHandler sample NewWriter \<lparr>Body = ''not json''\<rparr> start))) =
     [(Some (JBool False),
       Some (JString ''invalid character 'o' in literal null (expecting 'u')''))]"
  using malformed_body_rejected
    [of sample "\<lparr>Body = ''not json''\<rparr>"
       "''invalid character 'o' in literal null (expecting 'u')''" NewWriter start]
  by (auto simp: sample_defs answers_def StatusBadRequest_def)

text \<open>
  Claim C4. When the signer fails on a valid request, with error \<open>e\<close>, the handler
  answers with status 500 and an envelope whose \<^verbatim>\<open>success\<close> is false and whose \<^verbatim>\<open>error\<close>
  field holds the message of \<open>e\<close>. That message is not empty: it is the signer's text
  for a failed session construction or for a failed signing.
\<close>

theorem signer_failure_is_500:
  assumes "Decode P (Body r) = Inr body"
    and "0 < sint (ContentLength body)" and "sint (ContentLength body) \<le> 1048576"
    and "fst (signer_call P s body) = Inl e"
  shows "(\<exists>env. answers w (fst (GetUploadURLHandler P w r s)) StatusInternalServerError env \<and>
            env ''success'' = Some (JBool False) \<and> env ''error'' = Some (JString e)) \<and>
         StatusInternalServerError = 500 \<and> e \<noteq> [] \<and>
         (e = ''failed to create AWS session'' \<or> e = ''failed to sign request'')"
proof -
  let ?env = "Error ''failed to create AWS session'' (Some e)"
  have "GetUploadURLHandler P w r s =
          (SendResponse w ?env StatusInternalServerError, snd (signer_call P s body))"
    using assms by (simp add: handler_valid_length)
  then have "answers w (fst (GetUploadURLHandler P w r s)) StatusInternalServerError ?env"
    by (simp add: answers_SendResponse)
  moreover have "?env ''success'' = Some (JBool False)" and "?env ''error'' = Some (JString e)"
    by (simp_all add: Error_def)
  moreover have msg: "e = ''failed to create AWS session'' \<or> e = ''failed to sign request''"
    using assms(4) unfolding signer_call_def by (rule signer_error_message)
  moreover from msg have "e \<noteq> []"
    by auto
  ultimately show ?thesis
    unfolding StatusInternalServerError_def by blast
qed

theorem signer_failure_is_500_witness:
  \<open>Decode sample_unsigned ''{"content_length": 5}'' = Inr \<lparr>ContentLength = 5\<rparr> \<and>
   fst (signer_call sample_unsigned start \<lparr>ContentLength = 5\<rparr>) = Inl ''failed to sign request'' \<and>
   StatusCode (fst (GetUploadURLHandler sample_unsigned NewWriter
     \<lparr>Body = ''{"content_length": 5}''\<rparr> start)) = Some 500 \<and>
   map (\<lambda>env. (env ''success'', env ''error''))
     (Written (fst (GetUploadURLHandler sample_unsigned NewWriter
        \<lparr>Body = ''{"content_length": 5}''\<rparr> start))) =
     [(Some (JBool False), Some (JString ''failed to sign request''))]\<close>
proof -
  have 1: \<open>Decode sample_unsigned (Body \<lparr>Body = ''{"content_length": 5}''\<rparr>) =
      Inr \<lparr>ContentLength = 5\<rparr>\<close>
    by (simp add: sample_defs)
  have 2: "fst (signer_call sample_unsigned start \<lparr>ContentLength = 5\<rparr>) =
      Inl ''failed to sign request''"
    by (simp add: sample_defs signer_call_def GeneratePresignedURL_def time_Now_def
        upload_param_def)
  have 3: "0 < sint (ContentLength \<lparr>ContentLength = 5\<rparr>)"
    and 4: "sint (ContentLength \<lparr>ContentLength = 5\<rparr>) \<le> 1048576"
    by simp_all
  show ?thesis
    using 1 2 signer_failure_is_500 [OF 1 3 4 2, of NewWriter]
    by (auto simp: answers_def StatusInternalServerError_def NewWriter_def)
qed

text \<open>
  Claim C5. For a successful request the \<^verbatim>\<open>expiration_time\<close> of the descriptor is the
  clock reading the signer takes while the request is processed (the reading after the one
  that names the file) plus exactly 10 minutes, that is 600 000 000 000 ns; so it is within
  2 seconds of \<open>t\<close> + 10 minutes for every instant \<open>t\<close> within 2 seconds of that reading.
\<close>

theorem expiration_is_now_plus_ten_minutes:
  assumes "StatusCode (fst (GetUploadURLHandler P w r s)) = Some StatusOK"
  shows "\<exists>d. sent_data (fst (GetUploadURLHandler P w r s)) = Some d \<and>
           ExpirationTime d = Clock P (Suc (Ticks s)) + 10 * 60 * 1000000000 \<and>
           (\<forall>t. \<bar>t - Clock P (Suc (Ticks s))\<bar> \<le> 2 * 1000000000 \<longrightarrow>
                \<bar>ExpirationTime d - (t + 10 * 60 * 1000000000)\<bar> \<le> 2 * 1000000000)"
proof -
  from assms obtain body d where d: "fst (signer_call P s body) = Inr d"
    and run: "GetUploadURLHandler P w r s =
           (SendResponse w (Success ''pre-signed URL generated'' d) StatusOK,
            snd (signer_call P s body))"
    by (rule handler_ok_cases)
  have "sint (10 * time_Minute) = 600000000000"
    by (simp add: time_Minute_def time_Second_def time_Millisecond_def time_Microsecond_def
        time_Nanosecond_def)
  then have "ExpirationTime d = Clock P (Suc (Ticks s)) + 10 * 60 * 1000000000"
    using signer_call_result(5) [OF d] by (simp add: Add_def)
  then show ?thesis
    by (auto simp: run)
qed

theorem expiration_is_now_plus_ten_minutes_witness:
  \<open>StatusCode (fst (GetUploadURLHandler sample NewWriter \<lparr>Body = ''{"content_length": 5}''\<rparr> start))
     = Some 200 \<and>
   Clock sample (Suc (Ticks start)) = 1700000000163456789 \<and>
   map_option ExpirationTime
     (sent_data (fst (GetUploadURLHandler sample NewWriter \<lparr>Body = ''{"content_length": 5}''\<rparr> start)))
     = Some 1700000600163456789\<close>
proof -
  have "Clock sample (Suc (Ticks start)) = 1700000000163456789"
    by (simp add: sample_defs)
  then show ?thesis
    using sample_status expiration_is_now_plus_ten_minutes [OF sample_status]
    by (auto simp: StatusOK_def)
qed

text \<open>
  Claim C6. For a successful request the \<^verbatim>\<open>host\<close> of the descriptor is the configured
  bucket name (the environment variable \<^verbatim>\<open>AWS_BUCKET\<close>) followed by
  \<^verbatim>\<open>.s3.amazonaws.com\<close>, whatever the request's \<^verbatim>\<open>content_length\<close>.
\<close>

theorem host_is_bucket_domain:
  assumes "StatusCode (fst (GetUploadURLHandler P w r s)) = Some StatusOK"
  shows "\<exists>d. sent_data (fst (GetUploadURLHandler P w r s)) = Some d \<and>
           Host d = Getenv P ''AWS_BUCKET'' @ ''.s3.amazonaws.com''"
proof -
  from assms obtain body d where d: "fst (signer_call P s body) = Inr d"
    and run: "GetUploadURLHandler P w r s =
           (SendResponse w (Success ''pre-signed URL generated'' d) StatusOK,
            snd (signer_call P s body))"
    by (rule handler_ok_cases)
  from signer_call_result(3) [OF d] show ?thesis
    by (simp add: run)
qed

theorem host_is_bucket_domain_witness:
  \<open>StatusCode (fst (GetUploadURLHandler sample NewWriter \<lparr>Body = ''{"content_length": 5}''\<rparr> start))
     = Some 200 \<and>
   Getenv sample ''AWS_BUCKET'' = ''uploads'' \<and>
   map_option Host
     (sent_data (fst (GetUploadURLHandler sample NewWriter \<lparr>Body = ''{"content_length": 5}''\<rparr> start)))
     = Some ''uploads.s3.amazonaws.com''\<close>
proof -
  have "Getenv sample ''AWS_BUCKET'' = ''uploads''"
    by (simp add: sample_defs)
  then show ?thesis
    using sample_status host_is_bucket_domain [OF sample_status]
    by (auto simp: StatusOK_def)
qed

text \<open>
  Claim C7. The \<^verbatim>\<open>file_name\<close> of a successful request is the layout
  \<^verbatim>\<open>YYYY-MM-DD-HH-MM-SS\<close> of the calendar fields of the whole second of the handler's clock
  reading, followed by \<^verbatim>\<open>.png\<close>; nothing of the request enters it. For calendar fields
  in their ranges the stamp has four digits, then five times a dash and two digits. Two
  successful requests, whatever their bodies, processed in the same second of the same
  calendar get the same \<^verbatim>\<open>file_name\<close>.
\<close>

theorem file_name_is_stamp_of_clock_second:
  assumes "StatusCode (fst (GetUploadURLHandler P1 w1 r1 s1)) = Some StatusOK"
    and "StatusCode (fst (GetUploadURLHandler P2 w2 r2 s2)) = Some StatusOK"
  shows "\<exists>d1 d2.
           sent_data (fst (GetUploadURLHandler P1 w1 r1 s1)) = Some d1 \<and>
           sent_data (fst (GetUploadURLHandler P2 w2 r2 s2)) = Some d2 \<and>
           FileName d1 =
             Format_layout (Local P1 (unix_seconds (Clock P1 (Ticks s1)))) @ ''.png'' \<and>
           (calendar_fields (Local P1 (unix_seconds (Clock P1 (Ticks s1)))) \<longrightarrow>
              (\<exists>stamp. FileName d1 = stamp @ ''.png'' \<and>
                 has_layout ''dddd-dd-dd-dd-dd-dd'' stamp)) \<and>
           (Local P1 = Local P2 \<and>
            unix_seconds (Clock P1 (Ticks s1)) = unix_seconds (Clock P2 (Ticks s2)) \<longrightarrow>
              FileName d1 = FileName d2)"
proof -
  from assms(1) obtain body1 d1 where d1: "fst (signer_call P1 s1 body1) = Inr d1"
    and run1: "GetUploadURLHandler P1 w1 r1 s1 =
           (SendResponse w1 (Success ''pre-signed URL generated'' d1) StatusOK,
            snd (signer_call P1 s1 body1))"
    by (rule handler_ok_cases)
  from assms(2) obtain body2 d2 where d2: "fst (signer_call P2 s2 body2) = Inr d2"
    and run2: "GetUploadURLHandler P2 w2 r2 s2 =
           (SendResponse w2 (Success ''pre-signed URL generated'' d2) StatusOK,
            snd (signer_call P2 s2 body2))"
    by (rule handler_ok_cases)
  have n1: "FileName d1 =
      Format_layout (Local P1 (unix_seconds (Clock P1 (Ticks s1)))) @ ''.png''"
    using signer_call_result(2) [OF d1] by (simp add: file_name_at_def Format_def)
  have n2: "FileName d2 =
      Format_layout (Local P2 (unix_seconds (Clock P2 (Ticks s2)))) @ ''.png''"
    using signer_call_result(2) [OF d2] by (simp add: file_name_at_def Format_def)
  have shape: "\<exists>stamp. FileName d1 = stamp @ ''.png'' \<and> has_layout ''dddd-dd-dd-dd-dd-dd'' stamp"
    if "calendar_fields (Local P1 (unix_seconds (Clock P1 (Ticks s1))))"
    using n1 Format_layout_shape [OF that] by blast
  have same: "FileName d1 = FileName d2"
    if "Local P1 = Local P2 \<and>
        unix_seconds (Clock P1 (Ticks s1)) = unix_seconds (Clock P2 (Ticks s2))"
    using that n1 n2 by simp
  have "sent_data (fst (GetUploadURLHandler P1 w1 r1 s1)) = Some d1"
    and "sent_data (fst (GetUploadURLHandler P2 w2 r2 s2)) = Some d2"
    by (simp_all add: run1 run2)
  with n1 shape same show ?thesis
    by blast
qed

theorem file_name_is_stamp_of_clock_second_witness:
  \<open>StatusCode (fst (GetUploadURLHandler sample NewWriter \<lparr>Body = ''{"content_length": 5}''\<rparr> start))
     = Some 200 \<and>
   StatusCode (fst (GetUploadURLHandler sample NewWriter \<lparr>Body = ''{"content_length": 7}''\<rparr>
     \<lparr>Ticks = 2, Calls = []\<rparr>)) = Some 200 \<and>
   calendar_fields (Local sample (unix_seconds (Clock sample (Ticks start)))) \<and>
   unix_seconds (Clock sample (Ticks start)) =
     unix_seconds (Clock sample (Ticks \<lparr>Ticks = 2, Calls = []\<rparr>)) \<and>
   map_option FileName (sent_data (fst (GetUploadURLHandler sample NewWriter
       \<lparr>Body = ''{"content_length": 5}''\<rparr> start))) = Some ''2023-11-14-22-13-20.png'' \<and>
   map_option FileName (sent_data (fst (GetUploadURLHandler sample NewWriter
       \<lparr>Body = ''{"content_length": 7}''\<rparr> \<lparr>Ticks = 2, Calls = []\<rparr>))) =
     Some ''2023-11-14-22-13-20.png''\<close>
proof -
  let ?r1 = \<open>\<lparr>Body = ''{"content_length": 5}''\<rparr>\<close>
  let ?r2 = \<open>\<lparr>Body = ''{"content_length": 7}''\<rparr>\<close>
  let ?s2 = "\<lparr>Ticks = 2, Calls = []\<rparr>"
  have cal: "calendar_fields (Local sample (unix_seconds (Clock sample (Ticks start))))"
    by (simp add: sample_defs calendar_fields_def unix_seconds_def)
  have sec: "unix_seconds (Clock sample (Ticks start)) = unix_seconds (Clock sample (Ticks ?s2))"
    by (simp add: sample_defs unix_seconds_def)
  have stamp: "Format_layout (Local sample (unix_seconds (Clock sample (Ticks start)))) =
      ''2023-11-14-22-13-20''"
    by (simp add: sample_defs unix_seconds_def Format_layout_def appendInt_def digits10_lt
        digits10_ge digit_def)
  from file_name_is_stamp_of_clock_second [OF sample_status sample_status_later]
  obtain d1 d2 where
    "sent_data (fst (GetUploadURLHandler sample NewWriter ?r1 start)) = Some d1"
    and "sent_data (fst (GetUploadURLHandler sample NewWriter ?r2 ?s2)) = Some d2"
    and "FileName d1 =
      Format_layout (Local sample (unix_seconds (Clock sample (Ticks start)))) @ ''.png''"
    and "Local sample = Local sample \<and>
         unix_seconds (Clock sample (Ticks start)) = unix_seconds (Clock sample (Ticks ?s2)) \<longrightarrow>
         FileName d1 = FileName d2"
    by (elim exE conjE)
  with sec stamp have
    "map_option FileName (sent_data (fst (GetUploadURLHandler sample NewWriter ?r1 start))) =
       Some ''2023-11-14-22-13-20.png''"
    and "map_option FileName (sent_data (fst (GetUploadURLHandler sample NewWriter ?r2 ?s2))) =
       Some ''2023-11-14-22-13-20.png''"
    by simp_all
  with cal sec sample_status sample_status_later show ?thesis
    unfolding StatusOK_def by (intro conjI)
qed

text \<open>
  Claim C8, as the code has it. The \<^verbatim>\<open>details\<close> of a successful request are three hints.
  The first is fixed, the second is an expiry hint of the form
  \<^verbatim>\<open>The URL will expire after ... minutes\<close> that is the same for all requests, and the
  third names the request's own \<^verbatim>\<open>content_length\<close> as the maximum upload size, so it
  differs between requests of different lengths.
\<close>

theorem details_are_three_hints:
  assumes "Decode P1 (Body r1) = Inr body1"
    and "StatusCode (fst (GetUploadURLHandler P1 w1 r1 s1)) = Some StatusOK"
    and "Decode P2 (Body r2) = Inr body2"
    and "StatusCode (fst (GetUploadURLHandler P2 w2 r2 s2)) = Some StatusOK"
  shows "\<exists>d1 d2 expiry.
           sent_data (fst (GetUploadURLHandler P1 w1 r1 s1)) = Some d1 \<and>
           sent_data (fst (GetUploadURLHandler P2 w2 r2 s2)) = Some d2 \<and>
           Details d1 =
             [''Use the pre-signed URL to upload the file'',
              ''The URL will expire after '' @ expiry @ '' minutes'',
              ''The maximum upload size is '' @ fmt_d (sint (ContentLength body1)) @ '' bytes''] \<and>
           Details d2 =
             [''Use the pre-signed URL to upload the file'',
              ''The URL will expire after '' @ expiry @ '' minutes'',
              ''The maximum upload size is '' @ fmt_d (sint (ContentLength body2)) @ '' bytes'']"
proof -
  from assms(2) obtain b1 d1 where b1: "Decode P1 (Body r1) = Inr b1"
    and d1: "fst (signer_call P1 s1 b1) = Inr d1"
    and run1: "GetUploadURLHandler P1 w1 r1 s1 =
           (SendResponse w1 (Success ''pre-signed URL generated'' d1) StatusOK,
            snd (signer_call P1 s1 b1))"
    by (rule handler_ok_cases)
  from assms(4) obtain b2 d2 where b2: "Decode P2 (Body r2) = Inr b2"
    and d2: "fst (signer_call P2 s2 b2) = Inr d2"
    and run2: "GetUploadURLHandler P2 w2 r2 s2 =
           (SendResponse w2 (Success ''pre-signed URL generated'' d2) StatusOK,
            snd (signer_call P2 s2 b2))"
    by (rule handler_ok_cases)
  from b1 b2 assms(1,3) have same: "b1 = body1" "b2 = body2"
    by simp_all
  let ?expiry = "fmt_d (sint (10 * time_Minute))"
  have "sent_data (fst (GetUploadURLHandler P1 w1 r1 s1)) = Some d1"
    and "sent_data (fst (GetUploadURLHandler P2 w2 r2 s2)) = Some d2"
    by (simp_all add: run1 run2)
  moreover have "Details d1 =
             [''Use the pre-signed URL to upload the file'',
              ''The URL will expire after '' @ ?expiry @ '' minutes'',
              ''The maximum upload size is '' @ fmt_d (sint (ContentLength body1)) @ '' bytes'']"
    using signer_call_result(6) [OF d1] same by simp
  moreover have "Details d2 =
             [''Use the pre-signed URL to upload the file'',
              ''The URL will expire after '' @ ?expiry @ '' minutes'',
              ''The maximum upload size is '' @ fmt_d (sint (ContentLength body2)) @ '' bytes'']"
    using signer_call_result(6) [OF d2] same by simp
  ultimately show ?thesis
    by blast
qed

theorem details_are_three_hints_witness:
  \<open>Decode sample ''{"content_length": 5}'' = Inr \<lparr>ContentLength = 5\<rparr> \<and>
   Decode sample ''{"content_length": 7}'' = Inr \<lparr>ContentLength = 7\<rparr> \<and>
   StatusCode (fst (GetUploadURLHandler sample NewWriter \<lparr>Body = ''{"content_length": 5}''\<rparr> start))
     = Some 200 \<and>
   StatusCode (fst (GetUploadURLHandler sample NewWriter \<lparr>Body = ''{"content_length": 7}''\<rparr> start))
     = Some 200 \<and>
   (\<exists>d1 d2 expiry.
      sent_data (fst (GetUploadURLHandler sample NewWriter
        \<lparr>Body = ''{"content_length": 5}''\<rparr> start)) = Some d1 \<and>
      sent_data (fst (GetUploadURLHandler sample NewWriter
        \<lparr>Body = ''{"content_length": 7}''\<rparr> start)) = Some d2 \<and>
      Details d1 =
        [''Use the pre-signed URL to upload the file'',
         ''The URL will expire after '' @ expiry @ '' minutes'',
         ''The maximum upload size is 5 bytes''] \<and>
      Details d2 =
        [''Use the pre-signed URL to upload the file'',
         ''The URL will expire after '' @ expiry @ '' minutes'',
         ''The maximum upload size is 7 bytes''])\<close>
proof -
  have 1: \<open>Decode sample (Body \<lparr>Body = ''{"content_length": 5}''\<rparr>) = Inr \<lparr>ContentLength = 5\<rparr>\<close>
    by (simp add: sample_defs)
  have 2: \<open>Decode sample (Body \<lparr>Body = ''{"content_length": 7}''\<rparr>) = Inr \<lparr>ContentLength = 7\<rparr>\<close>
    by (simp add: sample_defs)
  have 3: "fmt_d (sint (ContentLength \<lparr>ContentLength = 5\<rparr>)) = ''5''"
    "fmt_d (sint (ContentLength \<lparr>ContentLength = 7\<rparr>)) = ''7''"
    by (simp_all add: fmt_d_def digits10_lt digit_def)
  note hints = details_are_three_hints [OF 1 sample_status 2 sample_status_seven,
      unfolded 3]
  show ?thesis
    using 1 2 sample_status sample_status_seven hints
    by (simp add: StatusOK_def)
qed

theorem details_fixed_list_counterexample:
  \<open>map_option Details (sent_data (fst (GetUploadURLHandler sample NewWriter
       \<lparr>Body = ''{"content_length": 5}''\<rparr> start))) =
     Some [''Use the pre-signed URL to upload the file'',
           ''The URL will expire after 600000000000 minutes'',
           ''The maximum upload size is 5 bytes''] \<and>
   map_option Details (sent_data (fst (GetUploadURLHandler sample NewWriter
       \<lparr>Body = ''{"content_length": 7}''\<rparr> start))) =
     Some [''Use the pre-signed URL to upload the file'',
           ''The URL will expire after 600000000000 minutes'',
           ''The maximum upload size is 7 bytes''] \<and>
   map_option Details (sent_data (fst (GetUploadURLHandler sample NewWriter
       \<lparr>Body = ''{"content_length": 5}''\<rparr> start))) \<noteq>
   map_option Details (sent_data (fst (GetUploadURLHandler sample NewWriter
       \<lparr>Body = ''{"content_length": 7}''\<rparr> start)))\<close>
  by (simp add: sample_defs run_defs)



text \<open>
  Claim C10. The envelope of a request rejected for its content length has the keys
  \<^verbatim>\<open>success\<close> and \<^verbatim>\<open>message\<close> and no others, so no \<^verbatim>\<open>error\<close> key (\<^verbatim>\<open>Error\<close> is called
  with \<^verbatim>\<open>nil\<close>); the envelope of a request whose body does not decode has an \<^verbatim>\<open>error\<close> key.
  Both are sent with status 400.
\<close>

theorem invalid_length_envelope_has_no_error_key:
  "(Decode P (Body r) = Inr body \<and>
      (sint (ContentLength body) \<le> 0 \<or> 1048576 < sint (ContentLength body)) \<longrightarrow>
      (\<exists>env. answers w (fst (GetUploadURLHandler P w r s)) 400 env \<and>
         dom env = {''success'', ''message''} \<and> ''error'' \<notin> dom env)) \<and>
   (Decode P (Body r') = Inl e \<longrightarrow>
      (\<exists>env. answers w (fst (GetUploadURLHandler P w r' s)) 400 env \<and> ''error'' \<in> dom env))"
proof (intro conjI impI)
  assume a: "Decode P (Body r) = Inr body \<and>
      (sint (ContentLength body) \<le> 0 \<or> 1048576 < sint (ContentLength body))"
  let ?env = "Error ''invalid content length'' None"
  have "GetUploadURLHandler P w r s = (SendResponse w ?env StatusBadRequest, s)"
    using a by (simp add: handler_invalid_length)
  then have "answers w (fst (GetUploadURLHandler P w r s)) 400 ?env"
    using answers_SendResponse [of w ?env StatusBadRequest] by (simp add: StatusBadRequest_def)
  moreover have "dom ?env = {''success'', ''message''}"
    by (auto simp: Error_def)
  moreover have "''error'' \<notin> dom ?env"
    by (simp add: Error_def)
  ultimately show "\<exists>env. answers w (fst (GetUploadURLHandler P w r s)) 400 env \<and>
         dom env = {''success'', ''message''} \<and> ''error'' \<notin> dom env"
    by blast
next
  assume a: "Decode P (Body r') = Inl e"
  let ?env = "Error ''invalid request body'' (Some e)"
  have "GetUploadURLHandler P w r' s = (SendResponse w ?env StatusBadRequest, s)"
    using a by (rule handler_decode_error)
  then have "answers w (fst (GetUploadURLHandler P w r' s)) 400 ?env"
    using answers_SendResponse [of w ?env StatusBadRequest] by (simp add: StatusBadRequest_def)
  moreover have "''error'' \<in> dom ?env"
    by (simp add: Error_def)
  ultimately show "\<exists>env. answers w (fst (GetUploadURLHandler P w r' s)) 400 env \<and>
      ''error'' \<in> dom env"
    by blast
qed

theorem invalid_length_envelope_has_no_error_key_witness:
  \<open>Decode sample ''{"content_length": 0}'' = Inr \<lparr>ContentLength = 0\<rparr> \<and>
   Decode sample ''not json'' = Inl ''invalid character 'o' in literal null (expecting 'u')'' \<and>
   map dom (Written (fst (GetUploadURLHandler sample NewWriter
       \<lparr>Body = ''{"content_length": 0}''\<rparr> start))) = [{''success'', ''message''}] \<and>
   map (\<lambda>env. ''error'' \<in> dom env)
     (Written (fst (GetUploadURLHandler sample NewWriter \<lparr>Body = ''not json''\<rparr> start))) = [True]\<close>
proof -
  let ?r = \<open>\<lparr>Body = ''{"content_length": 0}''\<rparr>\<close>
  let ?r' = "\<lparr>Body = ''not json''\<rparr>"
  let ?e = "''invalid character 'o' in literal null (expecting 'u')''"
  have 1: "Decode sample (Body ?r) = Inr \<lparr>ContentLength = 0\<rparr>"
    by (simp add: sample_defs)
  have 2: "Decode sample (Body ?r') = Inl ?e"
    by (simp add: sample_defs)
  have 3: "sint (ContentLength \<lparr>ContentLength = 0\<rparr>) \<le> 0"
    by simp
  note both = invalid_length_envelope_has_no_error_key
    [of sample ?r "\<lparr>ContentLength = 0\<rparr>" NewWriter start ?r' ?e]
  have "\<exists>env. answers NewWriter (fst (GetUploadURLHandler sample NewWriter ?r start)) 400 env \<and>
      dom env = {''success'', ''message''} \<and> ''error'' \<notin> dom env"
    using 1 3 by (intro both [THEN conjunct1, THEN mp] conjI disjI1)
  then obtain env where
    "Written (fst (GetUploadURLHandler sample NewWriter ?r start)) = Written NewWriter @ [env]"
    and "dom env = {''success'', ''message''}"
    unfolding answers_def by (elim exE conjE)
  then have a: "map dom (Written (fst (GetUploadURLHandler sample NewWriter ?r start))) =
      [{''success'', ''message''}]"
    by (simp add: NewWriter_def)
  have "\<exists>env. answers NewWriter (fst (GetUploadURLHandler sample NewWriter ?r' start)) 400 env \<and>
      ''error'' \<in> dom env"
    using 2 by (rule both [THEN conjunct2, THEN mp])
  then obtain env' where
    "Written (fst (GetUploadURLHandler sample NewWriter ?r' start)) = Written NewWriter @ [env']"
    and "''error'' \<in> dom env'"
    unfolding answers_def by (elim exE conjE)
  then have b: "map (\<lambda>env. ''error'' \<in> dom env)
      (Written (fst (GetUploadURLHandler sample NewWriter ?r' start))) = [True]"
    by (simp add: NewWriter_def)
  from 1 2 a b show ?thesis
    by simp
qed

end
